theory Spec2Isabelle
  imports Main "HOL-Library.Word"
begin

section \<open>The PodSet reconciler (controllers/podset\_controller.go)\<close>

text \<open>
  A shallow embedding of the reconciler. The cluster state store, the event recorder, the
  loggers, the clock and the goroutine scheduler are outside the program: every answer
  they give is a field of the record \<open>env\<close>, and every call the program makes to them is
  written to a trace (a list of \<open>call\<close>s), in the order the calls happen. A function of the
  Go file becomes a function that returns its Go result together with the trace of the
  calls it made. Theorems are stated for every \<open>env\<close>, that is for every behaviour of the
  collaborators.

  Go's \<open>int\<close> is taken to be 64 bits wide and is modelled by \<open>int\<close>: the only values of
  that type here are slice lengths, an \<open>int32\<close> converted to \<open>int\<close>, their difference and
  counters bounded by a slice length, none of which can leave the 64-bit range. The
  \<open>int32\<close> and \<open>int64\<close> fields of the API objects are words; \<open>int32(x)\<close> is
  \<open>word_of_int x\<close> and the value of a field is read by \<open>sint\<close>.
\<close>

subsection \<open>Errors and panics\<close>

text \<open>
  The program tells errors apart by \<open>apierrors.IsNotFound\<close> and by
  \<open>apierrors.HasStatusCause(err, NamespaceTerminatingCause)\<close>, and builds one error of its
  own with \<open>fmt.Errorf("failed to delete pod: %v", err)\<close> (the verb \<open>%v\<close> keeps the text and
  drops the wrapped error, so the result is not a not-found error).
\<close>

datatype error =
    StatusError (reasonNotFound: bool) (causeNamespaceTerminating: bool) (message: string)
  | FailedToDeletePod error
  | OtherError string

fun IsNotFound :: "error \<Rightarrow> bool" where
  "IsNotFound (StatusError notFound terminating msg) = notFound"
| "IsNotFound (FailedToDeletePod err) = False"
| "IsNotFound (OtherError msg) = False"

fun HasNamespaceTerminatingCause :: "error \<Rightarrow> bool" where
  "HasNamespaceTerminatingCause (StatusError notFound terminating msg) = terminating"
| "HasNamespaceTerminatingCause (FailedToDeletePod err) = False"
| "HasNamespaceTerminatingCause (OtherError msg) = False"

fun errorString :: "error \<Rightarrow> string" where
  "errorString (StatusError notFound terminating msg) = msg"
| "errorString (FailedToDeletePod err) = ''failed to delete pod: '' @ errorString err"
| "errorString (OtherError msg) = msg"

datatype panic = NilPointerDereference | SliceBoundsOutOfRange | NegativeChanSize

datatype 'a outcome = Returned 'a | Panicked panic

subsection \<open>API objects\<close>

type_synonym int32 = "32 word"
type_synonym int64 = "64 word"
type_synonym time = nat
type_synonym labels = "(string \<times> string) list"

text \<open>
  A pod: the fields this file reads or writes, and \<open>PodRest\<close> for everything else of
  \<open>corev1.Pod\<close> (phase, conditions, spec), which only the helpers outside this file read.
\<close>

record 'x Pod =
  PodName :: string
  PodNamespace :: string
  PodLabels :: labels
  PodRest :: 'x

record LabelSelector =
  MatchLabels :: labels

record PodSetStatus =
  Replicas :: int32
  ReadyReplicas :: int32
  AvailableReplicas :: int32
  ObservedGeneration :: int64

text \<open>\<open>Spec.Replicas\<close> and \<open>Spec.Selector\<close> are pointers: \<open>None\<close> is \<open>nil\<close>.\<close>

record 't PodSetSpec =
  SpecReplicas :: "int32 option"
  SpecSelector :: "LabelSelector option"
  SpecTemplate :: 't

record 't PodSet =
  ObjNamespace :: string
  ObjName :: string
  ObjUID :: string
  Generation :: int64
  DeletionTimestamp :: "time option"
  Spec :: "'t PodSetSpec"
  Status :: PodSetStatus

record OwnerReference =
  RefAPIVersion :: string
  RefKind :: string
  RefName :: string
  RefUID :: string
  RefBlockOwnerDeletion :: "bool option"
  RefController :: "bool option"

record Request =
  ReqNamespace :: string
  ReqName :: string

text \<open>\<open>ctrl.Result\<close>; the program never sets \<open>RequeueAfter\<close>.\<close>

record Result =
  Requeue :: bool

subsection \<open>Calls to the collaborators\<close>

datatype ('x, 't, 's) call =
    CallGet Request
  | CallList string 's
  | CallCreate "'x Pod"
  | CallDelete string string
  | CallStatusUpdate "'t PodSet"
  | CallEvent "'x Pod" string string string
  | CallLogV1Info string
  | CallLogError error string
  | CallLogInfo string "string \<times> string" int string int
  | CallKlogV4 string string

text \<open>
  The environment of one reconciliation pass.
  \<^item> \<open>rGet\<close>, \<open>rList\<close>, \<open>rCreate\<close>, \<open>rDelete\<close>, \<open>rStatusUpdate\<close>: the answers of the
    cluster state store to \<open>r.Get\<close>, \<open>r.List\<close>, \<open>r.Create\<close>, \<open>r.Delete\<close> and
    \<open>r.Status().Update\<close>. \<open>rCreate\<close> and \<open>rDelete\<close> take the number of the goroutine that
    calls, so that every call of a batch has an answer of its own. \<open>rStatusUpdate\<close> gives
    the error and the object as the client leaves it.
  \<^item> \<open>Sched\<close>: the scheduler. Goroutine \<open>i\<close> of a batch runs at priority \<open>Sched i\<close>;
    every order of the goroutines is the order of some \<open>Sched\<close>.
  \<^item> \<open>metav1Now\<close>: the clock read in iteration \<open>i\<close> of the loop of \<open>calculateStatus\<close>.
  \<^item> \<open>BurstReplicas\<close>, \<open>GroupVersionKind\<close>: the constants \<open>types.BurstReplicas\<close> and
    \<open>pixiuv1alpha1.GroupVersionKind\<close> (group, version, kind), declared outside this file.
  \<^item> \<open>parsePodSelector\<close>, \<open>FilterActivePods\<close>, \<open>IsPodReady\<close>, \<open>IsPodAvailable\<close>,
    \<open>validateControllerRef\<close>, \<open>GetPodFromTemplate\<close>: the helpers of the package that are
    declared outside this file.
\<close>

record ('x, 't, 's) env =
  rGet :: "Request \<Rightarrow> error + 't PodSet"
  rList :: "string \<Rightarrow> 's \<Rightarrow> error + 'x Pod list"
  rCreate :: "nat \<Rightarrow> 'x Pod \<Rightarrow> error option"
  rDelete :: "nat \<Rightarrow> string \<Rightarrow> string \<Rightarrow> error option"
  rStatusUpdate :: "'t PodSet \<Rightarrow> error option \<times> 't PodSet"
  Sched :: "nat \<Rightarrow> nat"
  metav1Now :: "nat \<Rightarrow> time"
  BurstReplicas :: int
  GroupVersionKind :: "string \<times> string \<times> string"
  parsePodSelector :: "'t PodSet \<Rightarrow> error + 's"
  FilterActivePods :: "'x Pod list \<Rightarrow> 'x Pod list"
  IsPodReady :: "'x Pod \<Rightarrow> bool"
  IsPodAvailable :: "'x Pod \<Rightarrow> int32 \<Rightarrow> time \<Rightarrow> bool"
  validateControllerRef :: "OwnerReference \<Rightarrow> error option"
  GetPodFromTemplate :: "'t \<Rightarrow> 't PodSet \<Rightarrow> OwnerReference \<Rightarrow> error + 'x Pod"

subsection \<open>Goroutines, wait group and error channel\<close>

text \<open>
  A batch starts \<open>n\<close> goroutines, each of which makes its calls and then sends at most one
  error on a channel buffered for \<open>n\<close> errors, so that no send blocks. \<open>wg.Wait()\<close> returns
  when all of them are done. The model runs the goroutines one after the other in the order
  the scheduler picks; what is left after the wait is the channel (the errors in the order
  they were sent) and the trace. A panic in a goroutine ends the process.
\<close>

definition goroutineOrder :: "('x, 't, 's) env \<Rightarrow> nat \<Rightarrow> nat list" where
  "goroutineOrder r n = sort_key (Sched r) [0..<n]"

fun waitGroup ::
  "(error list outcome \<times> ('x, 't, 's) call list) list \<Rightarrow>
   error list outcome \<times> ('x, 't, 's) call list" where
  "waitGroup [] = (Returned [], [])"
| "waitGroup ((Panicked p, tr) # rest) = (Panicked p, tr)"
| "waitGroup ((Returned sent, tr) # rest) =
     (case waitGroup rest of
        (Returned errCh, tr') \<Rightarrow> (Returned (sent @ errCh), tr @ tr')
      | (Panicked p, tr') \<Rightarrow> (Panicked p, tr @ tr'))"

subsection \<open>getPodsToDelete\<close>

text \<open>
  \<open>filteredPods[:diff]\<close> panics unless \<open>0 \<le> diff \<le> cap(filteredPods)\<close>. The model's
  slices have no spare capacity: a slice is the list of its elements.
\<close>

definition getPodsToDelete :: "'a list \<Rightarrow> int \<Rightarrow> 'a list outcome" where
  "getPodsToDelete filteredPods diff =
     (if diff < 0 \<or> int (length filteredPods) < diff then Panicked SliceBoundsOutOfRange
      else Returned (take (nat diff) filteredPods))"

subsection \<open>createPod and deletePod\<close>

text \<open>\<open>metav1.NewControllerRef\<close> of apimachinery.\<close>

definition NewControllerRef :: "'t PodSet \<Rightarrow> string \<times> string \<times> string \<Rightarrow> OwnerReference" where
  "NewControllerRef owner gvk =
     (case gvk of (grp, version, knd) \<Rightarrow>
        \<lparr> RefAPIVersion = (if grp = [] then version else grp @ ''/'' @ version),
          RefKind = knd,
          RefName = ObjName owner,
          RefUID = ObjUID owner,
          RefBlockOwnerDeletion = Some True,
          RefController = Some True \<rparr>)"

text \<open>
  \<open>createPod\<close>, called by goroutine \<open>i\<close>. \<open>object\<close> is always the PodSet, so the type
  assertion \<open>object.(*PodSet)\<close> succeeds; \<open>ps.Spec.Selector.MatchLabels\<close> dereferences the
  selector.
\<close>

definition createPod ::
  "('x, 't, 's) env \<Rightarrow> nat \<Rightarrow> string \<Rightarrow> 't \<Rightarrow> 't PodSet \<Rightarrow> OwnerReference \<Rightarrow>
   error option outcome \<times> ('x, 't, 's) call list" where
  "createPod r i namespace template object controllerRef =
     (case validateControllerRef r controllerRef of
        Some err \<Rightarrow> (Returned (Some err), [])
      | None \<Rightarrow>
         (case GetPodFromTemplate r template object controllerRef of
            Inl err \<Rightarrow> (Returned (Some err), [])
          | Inr pod \<Rightarrow>
             (case (if PodLabels pod = [] then
                      (case SpecSelector (Spec object) of
                         None \<Rightarrow> Panicked NilPointerDereference
                       | Some selector \<Rightarrow> Returned (pod\<lparr>PodLabels := MatchLabels selector\<rparr>))
                    else Returned pod) of
                Panicked p \<Rightarrow> (Panicked p, [])
              | Returned pod1 \<Rightarrow>
                 (let pod2 = pod1\<lparr>PodNamespace := namespace\<rparr> in
                  case rCreate r i pod2 of
                    Some err \<Rightarrow>
                      (Returned (Some err),
                       CallCreate pod2 #
                       (if HasNamespaceTerminatingCause err
                        then [CallEvent pod2 ''Warning'' ''create pod fail'' (errorString err)]
                        else []))
                  | None \<Rightarrow>
                      (Returned None,
                       [CallCreate pod2,
                        CallEvent pod2 ''Normal'' ''create pod successful''
                          ''create pod successful -1''])))))"

text \<open>\<open>deletePod\<close>, called by goroutine \<open>i\<close>.\<close>

definition deletePod ::
  "('x, 't, 's) env \<Rightarrow> nat \<Rightarrow> string \<Rightarrow> string \<Rightarrow> error option \<times> ('x, 't, 's) call list" where
  "deletePod r i namespace name =
     (case rDelete r i namespace name of
        Some err \<Rightarrow>
          (if IsNotFound err
           then (Some err, [CallDelete namespace name, CallKlogV4 namespace name])
           else (Some (FailedToDeletePod err), [CallDelete namespace name]))
      | None \<Rightarrow> (None, [CallDelete namespace name]))"

subsection \<open>createPodsInBatch\<close>

text \<open>
  The body of one goroutine of \<open>createPodsInBatch\<close>:
  \<open>if err := fn(); err != nil { errCh <- err }\<close>.
\<close>

definition createGoroutine ::
  "(nat \<Rightarrow> error option outcome \<times> ('x, 't, 's) call list) \<Rightarrow> nat \<Rightarrow>
   error list outcome \<times> ('x, 't, 's) call list" where
  "createGoroutine fn i =
     (case fn i of
        (Returned (Some err), tr) \<Rightarrow> (Returned [err], tr)
      | (Returned None, tr) \<Rightarrow> (Returned [], tr)
      | (Panicked p, tr) \<Rightarrow> (Panicked p, tr))"

text \<open>
  \<open>make(chan error, count)\<close> panics for a negative \<open>count\<close>. After the wait the function
  returns \<open>0, nil\<close>; the channel is not read.
\<close>

definition createPodsInBatch ::
  "('x, 't, 's) env \<Rightarrow> int \<Rightarrow> int \<Rightarrow>
   (nat \<Rightarrow> error option outcome \<times> ('x, 't, 's) call list) \<Rightarrow>
   (int \<times> error option) outcome \<times> ('x, 't, 's) call list" where
  "createPodsInBatch r count initialBatchSize fn =
     (if count < 0 then (Panicked NegativeChanSize, [])
      else
        (case waitGroup (map (createGoroutine fn) (goroutineOrder r (nat count))) of
           (Panicked p, tr) \<Rightarrow> (Panicked p, tr)
         | (Returned errCh, tr) \<Rightarrow> (Returned (0, None), tr)))"

subsection \<open>manageReplicas\<close>

text \<open>
  The body of one goroutine of the delete batch:
  \<open>if err := r.deletePod(...); err != nil { if !apierrors.IsNotFound(err) { errCh <- err } }\<close>.
\<close>

definition deleteGoroutine ::
  "('x, 't, 's) env \<Rightarrow> 'x Pod list \<Rightarrow> nat \<Rightarrow> error list outcome \<times> ('x, 't, 's) call list" where
  "deleteGoroutine r podToDelete i =
     (let targetPod = podToDelete ! i in
      case deletePod r i (PodNamespace targetPod) (PodName targetPod) of
        (Some err, tr) \<Rightarrow> (if \<not> IsNotFound err then (Returned [err], tr) else (Returned [], tr))
      | (None, tr) \<Rightarrow> (Returned [], tr))"

text \<open>
  \<open>*podSet.Spec.Replicas\<close> panics on a nil pointer. Goroutine \<open>i\<close> of the delete batch
  deletes \<open>podToDelete[i]\<close>. After the wait, \<open>select\<close> takes the first error of the
  channel if there is one (every error sent is non-nil) and falls through otherwise.
\<close>

definition manageReplicas ::
  "('x, 't, 's) env \<Rightarrow> 'x Pod list \<Rightarrow> 't PodSet \<Rightarrow>
   error option outcome \<times> ('x, 't, 's) call list" where
  "manageReplicas r filteredPods podSet =
     (case SpecReplicas (Spec podSet) of
        None \<Rightarrow> (Panicked NilPointerDereference, [])
      | Some replicas \<Rightarrow>
         (let diff = int (length filteredPods) - sint replicas in
          if diff < 0 then
            (let diff1 = diff * (- 1);
                 diff2 = (if diff1 > BurstReplicas r then BurstReplicas r else diff1);
                 logged = CallLogInfo ''Too few replicas'' (ObjNamespace podSet, ObjName podSet)
                            (sint replicas) ''creating'' diff2
             in case createPodsInBatch r diff2 1
                       (\<lambda>i. createPod r i (ObjNamespace podSet) (SpecTemplate (Spec podSet)) podSet
                               (NewControllerRef podSet (GroupVersionKind r))) of
                  (Panicked p, tr) \<Rightarrow> (Panicked p, logged # tr)
                | (Returned (n, err), tr) \<Rightarrow> (Returned err, logged # tr))
          else if diff > 0 then
            (let diff2 = (if diff > BurstReplicas r then BurstReplicas r else diff);
                 logged = CallLogInfo ''Too many replicas'' (ObjNamespace podSet, ObjName podSet)
                            (sint replicas) ''deleting'' diff2
             in case getPodsToDelete filteredPods diff2 of
                  Panicked p \<Rightarrow> (Panicked p, [logged])
                | Returned podToDelete \<Rightarrow>
                   (case waitGroup (map (deleteGoroutine r podToDelete)
                                        (goroutineOrder r (length podToDelete))) of
                      (Panicked p, tr) \<Rightarrow> (Panicked p, logged # tr)
                    | (Returned errCh, tr) \<Rightarrow>
                       (case errCh of
                          err # rest \<Rightarrow> (Returned (Some err), logged # tr)
                        | [] \<Rightarrow> (Returned None, logged # tr))))
          else (Returned None, [])))"

subsection \<open>calculateStatus\<close>

text \<open>
  The loop over \<open>filteredPods\<close>, with its two counters; \<open>i\<close> is the number of the
  iteration, at which the clock is read.
\<close>

fun calculateStatus_loop ::
  "('x, 't, 's) env \<Rightarrow> 'x Pod list \<Rightarrow> nat \<Rightarrow> int \<Rightarrow> int \<Rightarrow> int \<times> int" where
  "calculateStatus_loop r [] i readyReplicasCount availableReplicasCount =
     (readyReplicasCount, availableReplicasCount)"
| "calculateStatus_loop r (pod # pods) i readyReplicasCount availableReplicasCount =
     (if IsPodReady r pod then
        (if IsPodAvailable r pod 0 (metav1Now r i)
         then calculateStatus_loop r pods (Suc i) (readyReplicasCount + 1)
                (availableReplicasCount + 1)
         else calculateStatus_loop r pods (Suc i) (readyReplicasCount + 1)
                availableReplicasCount)
      else calculateStatus_loop r pods (Suc i) readyReplicasCount availableReplicasCount)"

definition calculateStatus ::
  "('x, 't, 's) env \<Rightarrow> 't PodSet \<Rightarrow> 'x Pod list \<Rightarrow> error option \<Rightarrow> PodSetStatus" where
  "calculateStatus r podSet filteredPods replicasErr =
     (let newStatus = Status podSet in
      case calculateStatus_loop r filteredPods 0 0 0 of
        (readyReplicasCount, availableReplicasCount) \<Rightarrow>
          newStatus\<lparr> Replicas := word_of_int (int (length filteredPods)),
                     ReadyReplicas := word_of_int readyReplicasCount,
                     AvailableReplicas := word_of_int availableReplicasCount \<rparr>)"

subsection \<open>updatePodSetStatus\<close>

text \<open>
  \<open>Inr podSet\<close> is the return \<open>podSet, nil\<close> and \<open>Inl err\<close> the return \<open>nil, err\<close>. On
  success the client has written the store's answer into \<open>*podSet\<close>.
\<close>

definition updatePodSetStatus ::
  "('x, 't, 's) env \<Rightarrow> 't PodSet \<Rightarrow> PodSetStatus \<Rightarrow>
   (error + 't PodSet) \<times> ('x, 't, 's) call list" where
  "updatePodSetStatus r podSet newStatus =
     (if Replicas (Status podSet) = Replicas newStatus \<and>
         ReadyReplicas (Status podSet) = ReadyReplicas newStatus \<and>
         AvailableReplicas (Status podSet) = AvailableReplicas newStatus \<and>
         Generation podSet = ObservedGeneration newStatus
      then (Inr podSet, [])
      else
        (let newStatus1 = newStatus\<lparr>ObservedGeneration := Generation podSet\<rparr>;
             podSet1 = podSet\<lparr>Status := newStatus1\<rparr>
         in case rStatusUpdate r podSet1 of
              (Some err, podSet2) \<Rightarrow> (Inl err, [CallStatusUpdate podSet1])
            | (None, podSet2) \<Rightarrow> (Inr podSet2, [CallStatusUpdate podSet1])))"

subsection \<open>Reconcile\<close>

text \<open>
  \<open>Inr podSet\<close> is a successful \<open>r.Get\<close>. \<open>podSet.DeepCopy()\<close> is the identity on
  values. The error returned beside the \<open>Result\<close> is \<open>nil\<close> on every path.
\<close>

definition Reconcile ::
  "('x, 't, 's) env \<Rightarrow> Request \<Rightarrow>
   (Result \<times> error option) outcome \<times> ('x, 't, 's) call list" where
  "Reconcile r req =
     (let started = [CallLogV1Info ''reconciling pod set operator'', CallGet req] in
      case rGet r req of
        Inl err \<Rightarrow>
          (if IsNotFound err then (Returned (\<lparr>Requeue = False\<rparr>, None), started)
           else (Returned (\<lparr>Requeue = True\<rparr>, None),
                 started @ [CallLogError err ''error requesting pod set operator'']))
      | Inr podSet \<Rightarrow>
         (case parsePodSelector r podSet of
            Inl err \<Rightarrow> (Returned (\<lparr>Requeue = True\<rparr>, None), started)
          | Inr labelSelector \<Rightarrow>
             (let listed = started @ [CallList (ReqNamespace req) labelSelector] in
              case rList r (ReqNamespace req) labelSelector of
                Inl err \<Rightarrow>
                  (Returned (\<lparr>Requeue = True\<rparr>, None),
                   listed @ [CallLogError err ''error list pods''])
              | Inr allPods \<Rightarrow>
                 (let filteredPods = FilterActivePods r allPods in
                  case (if DeletionTimestamp podSet = None
                        then manageReplicas r filteredPods podSet
                        else (Returned None, [])) of
                    (Panicked p, tr) \<Rightarrow> (Panicked p, listed @ tr)
                  | (Returned replicasErr, tr) \<Rightarrow>
                     (let newStatus = calculateStatus r podSet filteredPods replicasErr in
                      case updatePodSetStatus r podSet newStatus of
                        (Inl err, tr') \<Rightarrow>
                          (Returned (\<lparr>Requeue = True\<rparr>, None), listed @ tr @ tr')
                      | (Inr updated, tr') \<Rightarrow>
                          (Returned (\<lparr>Requeue = False\<rparr>, None), listed @ tr @ tr'))))))"

subsection \<open>Notions used in the statements\<close>

text \<open>The kinds of call a trace is searched for.\<close>

fun isCallCreate :: "('x, 't, 's) call \<Rightarrow> bool" where
  "isCallCreate (CallCreate pod) = True"
| "isCallCreate c = False"

fun isCallDelete :: "('x, 't, 's) call \<Rightarrow> bool" where
  "isCallDelete (CallDelete namespace name) = True"
| "isCallDelete c = False"

fun isCallStatusUpdate :: "('x, 't, 's) call \<Rightarrow> bool" where
  "isCallStatusUpdate (CallStatusUpdate podSet) = True"
| "isCallStatusUpdate c = False"

text \<open>Two status blocks carry the same three counts.\<close>

definition sameCounts :: "PodSetStatus \<Rightarrow> PodSetStatus \<Rightarrow> bool" where
  "sameCounts s s' =
     (Replicas s = Replicas s' \<and> ReadyReplicas s = ReadyReplicas s' \<and>
      AvailableReplicas s = AvailableReplicas s')"

text \<open>
  The answer of the store to the delete that goroutine \<open>i\<close> of a batch over \<open>victims\<close>
  issues; an answer that is success or a not-found error; the errors that goroutine sends
  on the channel and the calls it makes.
\<close>

definition deleteAnswer :: "('x, 't, 's) env \<Rightarrow> 'x Pod list \<Rightarrow> nat \<Rightarrow> error option" where
  "deleteAnswer r pods i = rDelete r i (PodNamespace (pods ! i)) (PodName (pods ! i))"

definition notFoundOrDone :: "error option \<Rightarrow> bool" where
  "notFoundOrDone answer = (case answer of None \<Rightarrow> True | Some err \<Rightarrow> IsNotFound err)"

definition deleteSent :: "('x, 't, 's) env \<Rightarrow> 'x Pod list \<Rightarrow> nat \<Rightarrow> error list" where
  "deleteSent r victims i =
     (case deleteAnswer r victims i of
        None \<Rightarrow> []
      | Some err \<Rightarrow> if IsNotFound err then [] else [FailedToDeletePod err])"

definition deleteCalls :: "('x, 't, 's) env \<Rightarrow> 'x Pod list \<Rightarrow> nat \<Rightarrow> ('x, 't, 's) call list" where
  "deleteCalls r victims i =
     CallDelete (PodNamespace (victims ! i)) (PodName (victims ! i)) #
     (case deleteAnswer r victims i of
        None \<Rightarrow> []
      | Some err \<Rightarrow>
          if IsNotFound err
          then [CallKlogV4 (PodNamespace (victims ! i)) (PodName (victims ! i))]
          else [])"

text \<open>
  The creates of a scale-up reach the store: \<open>validateControllerRef\<close> accepts the controller
  reference, \<open>GetPodFromTemplate\<close> gives a pod, and the pod has labels or the PodSet has a
  selector to take them from.
\<close>

definition createAccepted :: "('x, 't, 's) env \<Rightarrow> 't PodSet \<Rightarrow> bool" where
  "createAccepted r podSet =
     (validateControllerRef r (NewControllerRef podSet (GroupVersionKind r)) = None \<and>
      (case GetPodFromTemplate r (SpecTemplate (Spec podSet)) podSet
              (NewControllerRef podSet (GroupVersionKind r)) of
         Inl err \<Rightarrow> False
       | Inr pod \<Rightarrow> PodLabels pod \<noteq> [] \<or> SpecSelector (Spec podSet) \<noteq> None))"

subsection \<open>A concrete environment\<close>

text \<open>
  Concrete pods, a concrete PodSet and a concrete environment, at which the theorems below
  are instantiated. A demo pod carries its readiness in \<open>PodRest\<close>. In \<open>demoEnv\<close> every
  create is refused, the delete of pod \<open>a\<close> answers not-found, the delete of pod \<open>b\<close> is
  refused, and every other delete and every status update succeeds.
\<close>

definition demoPod :: "string \<Rightarrow> bool \<Rightarrow> bool Pod" where
  "demoPod name ready =
     \<lparr> PodName = name, PodNamespace = ''ns'', PodLabels = [(''app'', ''demo'')],
       PodRest = ready \<rparr>"

definition demoPodSet :: "int32 \<Rightarrow> unit PodSet" where
  "demoPodSet replicas =
     \<lparr> ObjNamespace = ''ns'', ObjName = ''demo'', ObjUID = ''uid-1'', Generation = 1,
       DeletionTimestamp = None,
       Spec = \<lparr> SpecReplicas = Some replicas,
                SpecSelector = Some \<lparr> MatchLabels = [(''app'', ''demo'')] \<rparr>,
                SpecTemplate = () \<rparr>,
       Status = \<lparr> Replicas = 1, ReadyReplicas = 1, AvailableReplicas = 1,
                  ObservedGeneration = 0 \<rparr> \<rparr>"

definition demoEnv :: "(bool, unit, unit) env" where
  "demoEnv =
     \<lparr> rGet = (\<lambda>req. Inr (demoPodSet 1)),
       rList = (\<lambda>namespace selector. Inr []),
       rCreate = (\<lambda>i pod. Some (OtherError ''create refused'')),
       rDelete = (\<lambda>i namespace name.
                    if name = ''a'' then Some (StatusError True False ''not found'')
                    else if name = ''b'' then Some (OtherError ''delete refused'')
                    else None),
       rStatusUpdate = (\<lambda>podSet. (None, podSet)),
       Sched = (\<lambda>i. 0),
       metav1Now = (\<lambda>i. 0),
       BurstReplicas = 500,
       GroupVersionKind = (''pixiu.pixiu.io'', ''v1alpha1'', ''PodSet''),
       parsePodSelector = (\<lambda>podSet. Inr ()),
       FilterActivePods = (\<lambda>pods. pods),
       IsPodReady = PodRest,
       IsPodAvailable = (\<lambda>pod minReadySeconds now. PodRest pod),
       validateControllerRef = (\<lambda>controllerRef. None),
       GetPodFromTemplate = (\<lambda>template object controllerRef. Inr (demoPod [] False)) \<rparr>"

text \<open>The request of the demo PodSet.\<close>

definition demoRequest :: Request where
  "demoRequest = \<lparr> ReqNamespace = ''ns'', ReqName = ''demo'' \<rparr>"

text \<open>A PodSet that carries a deletion marker, and an environment that serves it with two pods.\<close>

definition markedPodSet :: "unit PodSet" where
  "markedPodSet = (demoPodSet 5)\<lparr>DeletionTimestamp := Some 7\<rparr>"

definition markedEnv :: "(bool, unit, unit) env" where
  "markedEnv =
     demoEnv\<lparr> rGet := \<lambda>req. Inr markedPodSet,
              rList := \<lambda>namespace selector. Inr [demoPod ''a'' True, demoPod ''b'' False] \<rparr>"

text \<open>
  \<open>demoEnv\<close> with the answers of \<open>r.Get\<close>, \<open>parsePodSelector\<close> and \<open>r.List\<close> and the error
  of \<open>r.Status().Update\<close> chosen.
\<close>

definition scenario ::
  "error + unit PodSet \<Rightarrow> error + unit \<Rightarrow> error + bool Pod list \<Rightarrow> error option \<Rightarrow>
   (bool, unit, unit) env" where
  "scenario got selected listed commitErr =
     demoEnv\<lparr> rGet := \<lambda>req. got,
              parsePodSelector := \<lambda>podSet. selected,
              rList := \<lambda>namespace selector. listed,
              rStatusUpdate := \<lambda>podSet. (commitErr, podSet) \<rparr>"

section \<open>Facts shared by the proofs\<close>

subsection \<open>The status loop\<close>

lemma calculateStatus_loop_counts:
  "calculateStatus_loop r pods i readyCount availableCount =
     (readyCount + int (length (filter (IsPodReady r) pods)),
      availableCount +
        int (length (filter (\<lambda>(j, pod). IsPodReady r pod \<and> IsPodAvailable r pod 0 (metav1Now r j))
                            (enumerate i pods))))"
  by (induction pods arbitrary: i readyCount availableCount) simp_all

lemma calculateStatus_fields:
  "calculateStatus r podSet filteredPods replicasErr =
     (Status podSet)
       \<lparr> Replicas := word_of_int (int (length filteredPods)),
         ReadyReplicas := word_of_int (int (length (filter (IsPodReady r) filteredPods))),
         AvailableReplicas :=
           word_of_int (int (length (filter
             (\<lambda>(j, pod). IsPodReady r pod \<and> IsPodAvailable r pod 0 (metav1Now r j))
             (enumerate 0 filteredPods)))) \<rparr>"
  by (simp add: calculateStatus_def calculateStatus_loop_counts)

lemma sint_int32_of_nat:
  assumes "n < 2 ^ 31"
  shows "sint (word_of_nat n :: int32) = int n"
proof -
  have "int n < 2 ^ 31"
    using assms by (metis of_nat_less_iff of_nat_numeral of_nat_power)
  moreover have "- (2 ^ 31) \<le> int n"
    by (rule order_trans [of _ 0]) simp_all
  ultimately have "signed_take_bit 31 (int n) = int n"
    by (intro signed_take_bit_int_eq_self) simp_all
  then show ?thesis
    by (simp add: signed_of_nat)
qed

lemma length_available_le_ready:
  "length (filter (\<lambda>(j, pod). IsPodReady r pod \<and> P j pod) (enumerate i pods))
     \<le> length (filter (IsPodReady r) pods)"
proof (induction pods arbitrary: i)
  case Nil
  show ?case by simp
next
  case (Cons pod pods)
  from Cons [of "Suc i"] show ?case by simp
qed

lemma calculateStatus_ObservedGeneration:
  "ObservedGeneration (calculateStatus r podSet filteredPods replicasErr) =
     ObservedGeneration (Status podSet)"
  by (simp add: calculateStatus_fields)

lemma updatePodSetStatus_unchanged:
  assumes "sameCounts (Status podSet) newStatus"
    and "Generation podSet = ObservedGeneration newStatus"
  shows "updatePodSetStatus r podSet newStatus = (Inr podSet, [])"
  using assms by (simp add: updatePodSetStatus_def sameCounts_def)

lemma updatePodSetStatus_changed:
  assumes "\<not> (sameCounts (Status podSet) newStatus \<and>
              Generation podSet = ObservedGeneration newStatus)"
  shows "updatePodSetStatus r podSet newStatus =
           (case rStatusUpdate r
                   (podSet\<lparr>Status := newStatus\<lparr>ObservedGeneration := Generation podSet\<rparr>\<rparr>) of
              (Some err, obj) \<Rightarrow> Inl err
            | (None, obj) \<Rightarrow> Inr obj,
            [CallStatusUpdate
               (podSet\<lparr>Status := newStatus\<lparr>ObservedGeneration := Generation podSet\<rparr>\<rparr>)])"
  using assms
  by (auto simp add: updatePodSetStatus_def sameCounts_def Let_def split: prod.splits option.splits)

lemma updatePodSetStatus_quiet:
  "filter isCallCreate (snd (updatePodSetStatus r podSet newStatus)) = [] \<and>
   filter isCallDelete (snd (updatePodSetStatus r podSet newStatus)) = []"
  by (simp add: updatePodSetStatus_def Let_def split: prod.splits option.splits)

subsection \<open>The batches\<close>

lemma set_goroutineOrder: "set (goroutineOrder r n) = {0..<n}"
  by (simp add: goroutineOrder_def)

lemma length_goroutineOrder: "length (goroutineOrder r n) = n"
  by (simp add: goroutineOrder_def)

lemma deleteGoroutine_run:
  "deleteGoroutine r victims i = (Returned (deleteSent r victims i), deleteCalls r victims i)"
  by (simp add: deleteGoroutine_def deletePod_def deleteAnswer_def deleteSent_def
        deleteCalls_def Let_def split: option.splits)

lemma deleteCalls_count:
  "length (filter isCallDelete (deleteCalls r victims i)) = 1 \<and>
   filter isCallCreate (deleteCalls r victims i) = [] \<and>
   filter isCallStatusUpdate (deleteCalls r victims i) = []"
  by (simp add: deleteCalls_def split: option.splits)

lemma waitGroup_delete:
  "waitGroup (map (deleteGoroutine r victims) order) =
     (Returned (concat (map (deleteSent r victims) order)),
      concat (map (deleteCalls r victims) order))"
  by (induction order) (simp_all add: deleteGoroutine_run)

lemma deleteCalls_concat_count:
  "length (filter isCallDelete (concat (map (deleteCalls r victims) order))) = length order \<and>
   filter isCallCreate (concat (map (deleteCalls r victims) order)) = [] \<and>
   filter isCallStatusUpdate (concat (map (deleteCalls r victims) order)) = []"
  by (induction order) (simp_all add: deleteCalls_count)

lemma deleteSent_quiet:
  assumes "\<forall>i \<in> set order. notFoundOrDone (deleteAnswer r victims i)"
  shows "concat (map (deleteSent r victims) order) = []"
  using assms by (induction order) (auto simp add: deleteSent_def notFoundOrDone_def split: option.splits)

lemma deleteSent_loud:
  assumes "i \<in> set order" and "\<not> notFoundOrDone (deleteAnswer r victims i)"
  shows "concat (map (deleteSent r victims) order) \<noteq> []"
  using assms by (induction order) (auto simp add: deleteSent_def notFoundOrDone_def split: option.splits)

lemma manageReplicas_delete_branch:
  assumes rep: "SpecReplicas (Spec podSet) = Some replicas"
    and down: "sint replicas < int (length filteredPods)"
    and cut: "getPodsToDelete filteredPods
                (min (int (length filteredPods) - sint replicas) (BurstReplicas r)) =
              Returned victims"
  shows "manageReplicas r filteredPods podSet =
           (case concat (map (deleteSent r victims) (goroutineOrder r (length victims))) of
              err # rest \<Rightarrow> Returned (Some err)
            | [] \<Rightarrow> Returned None,
            CallLogInfo ''Too many replicas'' (ObjNamespace podSet, ObjName podSet)
              (sint replicas) ''deleting''
              (min (int (length filteredPods) - sint replicas) (BurstReplicas r)) #
            concat (map (deleteCalls r victims) (goroutineOrder r (length victims))))"
proof -
  let ?diff = "int (length filteredPods) - sint replicas"
  have clamp: "(if ?diff > BurstReplicas r then BurstReplicas r else ?diff) =
                 min ?diff (BurstReplicas r)"
    by (simp add: min_def)
  have pos: "\<not> ?diff < 0" and pos': "?diff > 0"
    using down by simp_all
  show ?thesis
  proof (cases "concat (map (deleteSent r victims) (goroutineOrder r (length victims)))")
    case Nil
    show ?thesis
      unfolding manageReplicas_def rep option.case Let_def clamp
      using pos pos' cut by (simp add: waitGroup_delete Nil)
  next
    case (Cons err rest)
    show ?thesis
      unfolding manageReplicas_def rep option.case Let_def clamp
      using pos pos' cut by (simp add: waitGroup_delete Cons)
  qed
qed




lemma deleteSent_members:
  assumes "err \<in> set (concat (map (deleteSent r victims) order))"
  shows "\<exists>i \<in> set order. \<exists>cause. deleteAnswer r victims i = Some cause \<and>
           \<not> IsNotFound cause \<and> err = FailedToDeletePod cause"
  using assms
  by (induction order) (auto simp add: deleteSent_def split: option.splits if_splits)

lemma createPod_accepted:
  assumes "createAccepted r podSet"
  shows "\<exists>res tr.
           createPod r i (ObjNamespace podSet) (SpecTemplate (Spec podSet)) podSet
             (NewControllerRef podSet (GroupVersionKind r)) = (Returned res, tr) \<and>
           length (filter isCallCreate tr) = 1 \<and> filter isCallDelete tr = []"
  using assms
  by (auto simp add: createAccepted_def createPod_def Let_def
        split: option.splits sum.splits if_splits)

lemma createGoroutine_accepted:
  assumes "createAccepted r podSet"
  shows "\<exists>sent tr.
           createGoroutine
             (\<lambda>i. createPod r i (ObjNamespace podSet) (SpecTemplate (Spec podSet)) podSet
                     (NewControllerRef podSet (GroupVersionKind r))) i = (Returned sent, tr) \<and>
           length (filter isCallCreate tr) = 1 \<and> filter isCallDelete tr = []"
proof -
  from createPod_accepted [OF assms, of i] obtain res tr where
    run: "createPod r i (ObjNamespace podSet) (SpecTemplate (Spec podSet)) podSet
             (NewControllerRef podSet (GroupVersionKind r)) = (Returned res, tr)"
    and count: "length (filter isCallCreate tr) = 1 \<and> filter isCallDelete tr = []"
    by blast
  show ?thesis
    using run count by (cases res) (simp_all add: createGoroutine_def)
qed

lemma waitGroup_counts:
  assumes "\<forall>i \<in> set order. \<exists>sent tr. g i = (Returned sent, tr) \<and>
             length (filter isCallCreate tr) = 1 \<and> filter isCallDelete tr = []"
  shows "\<exists>errCh tr. waitGroup (map g order) = (Returned errCh, tr) \<and>
           length (filter isCallCreate tr) = length order \<and> filter isCallDelete tr = []"
  using assms
proof (induction order)
  case Nil
  show ?case by simp
next
  case (Cons i order)
  then obtain errCh tr where
    rest: "waitGroup (map g order) = (Returned errCh, tr)"
    and count: "length (filter isCallCreate tr) = length order" "filter isCallDelete tr = []"
    by auto
  from Cons.prems obtain sent tr0 where
    first: "g i = (Returned sent, tr0)"
    and count0: "length (filter isCallCreate tr0) = 1" "filter isCallDelete tr0 = []"
    by auto
  show ?case
    using rest count first count0 by simp
qed

subsection \<open>The pass\<close>

lemma scenario_simps:
  "rGet (scenario got selected listed commitErr) req = got"
  "parsePodSelector (scenario got selected listed commitErr) podSet = selected"
  "rList (scenario got selected listed commitErr) namespace selector = listed"
  "rStatusUpdate (scenario got selected listed commitErr) podSet = (commitErr, podSet)"
  "FilterActivePods (scenario got selected listed commitErr) pods = pods"
  by (simp_all add: scenario_def demoEnv_def)

lemma Reconcile_listed:
  assumes get: "rGet r req = Inr podSet"
    and sel: "parsePodSelector r podSet = Inr labelSelector"
    and list: "rList r (ReqNamespace req) labelSelector = Inr allPods"
    and step: "(if DeletionTimestamp podSet = None
                then manageReplicas r (FilterActivePods r allPods) podSet
                else (Returned None, [])) = (Returned replicasErr, tr)"
  shows "Reconcile r req =
           (Returned
              (\<lparr>Requeue =
                  (case fst (updatePodSetStatus r podSet
                               (calculateStatus r podSet (FilterActivePods r allPods)
                                  replicasErr)) of
                     Inl err \<Rightarrow> True
                   | Inr updated \<Rightarrow> False)\<rparr>,
               None),
            [CallLogV1Info ''reconciling pod set operator'', CallGet req,
             CallList (ReqNamespace req) labelSelector] @ tr @
            snd (updatePodSetStatus r podSet
                   (calculateStatus r podSet (FilterActivePods r allPods) replicasErr)))"
  unfolding Reconcile_def Let_def get sel list sum.case step
  by (simp split: prod.splits sum.splits)

section \<open>The victim selector\<close>

text \<open>
  Claim C8. For a list of active instances and a count between 0 and the length of the
  list, \<open>getPodsToDelete\<close> returns (it does not panic) exactly the first \<open>count\<close> elements
  of the list in their order: the result is a prefix of the list, has \<open>count\<close> elements,
  its \<open>i\<close>-th element is the \<open>i\<close>-th element of the list, all its elements are elements of
  the list, and they are pairwise different when the elements of the list are. Being a
  function of the list and the count, the result is determined by them.
\<close>

theorem getPodsToDelete_prefix:
  assumes "0 \<le> diff" and "diff \<le> int (length filteredPods)"
  shows "\<exists>victims rest.
           getPodsToDelete filteredPods diff = Returned victims \<and>
           victims = take (nat diff) filteredPods \<and>
           filteredPods = victims @ rest \<and>
           int (length victims) = diff \<and>
           (\<forall>i < length victims. victims ! i = filteredPods ! i) \<and>
           set victims \<subseteq> set filteredPods \<and>
           (distinct filteredPods \<longrightarrow> distinct victims)"
proof -
  let ?v = "take (nat diff) filteredPods"
  have run: "getPodsToDelete filteredPods diff = Returned ?v"
    using assms by (simp add: getPodsToDelete_def)
  have len: "int (length ?v) = diff"
    using assms by simp
  have split: "filteredPods = ?v @ drop (nat diff) filteredPods"
    by simp
  have nth: "\<forall>i < length ?v. ?v ! i = filteredPods ! i"
    by simp
  have sub: "set ?v \<subseteq> set filteredPods"
    by (rule set_take_subset)
  have dist: "distinct filteredPods \<longrightarrow> distinct ?v"
    by simp
  from run len split nth sub dist show ?thesis
    by blast
qed

theorem getPodsToDelete_prefix_witness:
  "getPodsToDelete [demoPod ''a'' True, demoPod ''b'' False, demoPod ''c'' True] 2 =
     Returned [demoPod ''a'' True, demoPod ''b'' False]"
  using getPodsToDelete_prefix
          [of 2 "[demoPod ''a'' True, demoPod ''b'' False, demoPod ''c'' True]"]
  by simp

section \<open>The status calculator\<close>

text \<open>
  Claim C9. \<open>calculateStatus\<close> returns the stored status of the workload with the fields
  \<open>Replicas\<close>, \<open>ReadyReplicas\<close> and \<open>AvailableReplicas\<close> overwritten, and nothing else
  changed: \<open>ObservedGeneration\<close> is the stored one. So comparing the workload's generation
  with the \<open>ObservedGeneration\<close> of the computed status is comparing it with the stored
  \<open>ObservedGeneration\<close>.
\<close>

theorem calculateStatus_frame:
  "calculateStatus r podSet filteredPods replicasErr =
     (Status podSet)
       \<lparr> Replicas := Replicas (calculateStatus r podSet filteredPods replicasErr),
         ReadyReplicas := ReadyReplicas (calculateStatus r podSet filteredPods replicasErr),
         AvailableReplicas :=
           AvailableReplicas (calculateStatus r podSet filteredPods replicasErr) \<rparr> \<and>
   ObservedGeneration (calculateStatus r podSet filteredPods replicasErr) =
     ObservedGeneration (Status podSet) \<and>
   ((Generation podSet = ObservedGeneration (calculateStatus r podSet filteredPods replicasErr)) =
    (Generation podSet = ObservedGeneration (Status podSet)))"
  by (simp add: calculateStatus_fields)

theorem calculateStatus_frame_witness:
  "calculateStatus demoEnv (demoPodSet 3) [demoPod ''a'' True, demoPod ''b'' False] None =
     \<lparr> Replicas = 2, ReadyReplicas = 1, AvailableReplicas = 1, ObservedGeneration = 0 \<rparr>"
  using calculateStatus_frame
          [of demoEnv "demoPodSet 3" "[demoPod ''a'' True, demoPod ''b'' False]" None]
  by (simp add: calculateStatus_fields demoEnv_def demoPod_def demoPodSet_def enumerate_eq_zip)

text \<open>
  Claim C7, amended. For a list of fewer than \<open>2^31\<close> active instances,
  \<open>calculateStatus\<close> returns \<open>Replicas\<close> equal to the number of instances, \<open>ReadyReplicas\<close>
  equal to the number of instances that are ready, and \<open>AvailableReplicas\<close> equal to the
  number of instances that are ready and available (at the time the clock shows in their
  iteration), and so \<open>AvailableReplicas \<le> ReadyReplicas \<le> Replicas\<close>. The three fields are
  \<open>int32\<close>: the bound on the length is what the conversion \<open>int32(len(filteredPods))\<close> needs.
\<close>

theorem calculateStatus_counts:
  assumes "length filteredPods < 2 ^ 31"
  shows "sint (Replicas (calculateStatus r podSet filteredPods replicasErr)) =
           int (length filteredPods) \<and>
         sint (ReadyReplicas (calculateStatus r podSet filteredPods replicasErr)) =
           int (length (filter (IsPodReady r) filteredPods)) \<and>
         sint (AvailableReplicas (calculateStatus r podSet filteredPods replicasErr)) =
           int (length (filter
             (\<lambda>(i, pod). IsPodReady r pod \<and> IsPodAvailable r pod 0 (metav1Now r i))
             (enumerate 0 filteredPods))) \<and>
         sint (AvailableReplicas (calculateStatus r podSet filteredPods replicasErr)) \<le>
           sint (ReadyReplicas (calculateStatus r podSet filteredPods replicasErr)) \<and>
         sint (ReadyReplicas (calculateStatus r podSet filteredPods replicasErr)) \<le>
           sint (Replicas (calculateStatus r podSet filteredPods replicasErr))"
proof -
  let ?ready = "length (filter (IsPodReady r) filteredPods)"
  let ?avail = "length (filter
             (\<lambda>(i, pod). IsPodReady r pod \<and> IsPodAvailable r pod 0 (metav1Now r i))
             (enumerate 0 filteredPods))"
  have ready_le: "?ready \<le> length filteredPods"
    by (rule length_filter_le)
  have avail_le: "?avail \<le> ?ready"
    by (rule length_available_le_ready)
  have ready_lt: "?ready < 2 ^ 31"
    using ready_le assms by (rule le_less_trans)
  have avail_lt: "?avail < 2 ^ 31"
    using avail_le ready_lt by (rule le_less_trans)
  have r1: "sint (Replicas (calculateStatus r podSet filteredPods replicasErr)) =
           int (length filteredPods)"
    by (simp add: calculateStatus_fields sint_int32_of_nat [OF assms])
  have r2: "sint (ReadyReplicas (calculateStatus r podSet filteredPods replicasErr)) = int ?ready"
    by (simp add: calculateStatus_fields sint_int32_of_nat [OF ready_lt])
  have r3: "sint (AvailableReplicas (calculateStatus r podSet filteredPods replicasErr)) = int ?avail"
    by (simp add: calculateStatus_fields sint_int32_of_nat [OF avail_lt])
  show ?thesis
    unfolding r1 r2 r3 using ready_le avail_le by simp
qed

theorem calculateStatus_counts_witness:
  "sint (Replicas (calculateStatus demoEnv (demoPodSet 3)
           [demoPod ''a'' True, demoPod ''b'' False, demoPod ''c'' True] None)) = 3 \<and>
   sint (ReadyReplicas (calculateStatus demoEnv (demoPodSet 3)
           [demoPod ''a'' True, demoPod ''b'' False, demoPod ''c'' True] None)) = 2 \<and>
   sint (AvailableReplicas (calculateStatus demoEnv (demoPodSet 3)
           [demoPod ''a'' True, demoPod ''b'' False, demoPod ''c'' True] None)) = 2"
  using calculateStatus_counts [of "[demoPod ''a'' True, demoPod ''b'' False, demoPod ''c'' True]"
          demoEnv "demoPodSet 3" None]
  by (simp add: demoEnv_def demoPod_def enumerate_eq_zip)

text \<open>
  Claim C7 as stated, for every list, fails: at a list of \<open>2^31\<close> instances, all but the
  first of them ready, \<open>int32(len(filteredPods))\<close> wraps to \<open>-2^31\<close>, which is not the
  number of instances, and \<open>ReadyReplicas\<close> is \<open>2^31 - 1\<close>, which is above \<open>Replicas\<close>.
\<close>

theorem calculateStatus_overflow:
  "int (length (demoPod ''b'' False # replicate 2147483647 (demoPod ''a'' True))) = 2147483648 \<and>
   sint (Replicas (calculateStatus demoEnv (demoPodSet 3)
           (demoPod ''b'' False # replicate 2147483647 (demoPod ''a'' True)) None)) = - 2147483648 \<and>
   sint (ReadyReplicas (calculateStatus demoEnv (demoPodSet 3)
           (demoPod ''b'' False # replicate 2147483647 (demoPod ''a'' True)) None)) = 2147483647"
proof -
  let ?pods = "demoPod ''b'' False # replicate 2147483647 (demoPod ''a'' True)"
  have len: "length ?pods = 2147483648"
    by (simp only: length_Cons length_replicate)
  have ready: "filter (IsPodReady demoEnv) ?pods = replicate 2147483647 (demoPod ''a'' True)"
    by (simp only: filter.simps filter_replicate) (simp add: demoEnv_def demoPod_def)
  have "Replicas (calculateStatus demoEnv (demoPodSet 3) ?pods None) = word_of_int (int (length ?pods))"
    unfolding calculateStatus_fields by simp
  then have r1: "sint (Replicas (calculateStatus demoEnv (demoPodSet 3) ?pods None)) = - 2147483648"
    unfolding len by simp
  have "ReadyReplicas (calculateStatus demoEnv (demoPodSet 3) ?pods None) =
          word_of_int (int (length (filter (IsPodReady demoEnv) ?pods)))"
    unfolding calculateStatus_fields by simp
  then have r2: "sint (ReadyReplicas (calculateStatus demoEnv (demoPodSet 3) ?pods None)) = 2147483647"
    unfolding ready length_replicate by simp
  from len r1 r2 show ?thesis
    by simp
qed

section \<open>The status committer\<close>

text \<open>
  Claim C3, amended. \<open>updatePodSetStatus\<close> is a no-op (it returns the workload it was given
  and makes no call) if and only if the three counts of \<open>newStatus\<close> equal the stored ones
  and the workload's generation equals the \<open>ObservedGeneration\<close> of \<open>newStatus\<close>; when
  \<open>newStatus\<close> comes from \<open>calculateStatus\<close>, as it does in \<open>Reconcile\<close>, that is the stored
  \<open>ObservedGeneration\<close>. Otherwise it makes exactly one call, the status update of the
  workload with status \<open>newStatus\<close> and \<open>ObservedGeneration\<close> set to the generation, and
  returns the store's error or the record the store answered. Two commits in a row: when
  the first one, of a status computed by \<open>calculateStatus\<close>, returned a record that carries
  the committed status and the same generation, a second commit on that record of a status
  computed from it with the same three counts is a no-op.
\<close>

theorem updatePodSetStatus_commit:
  fixes r r' :: "('x, 't, 's) env"
  defines "unchanged podSet newStatus \<equiv>
             sameCounts (Status podSet) newStatus \<and>
             Generation podSet = ObservedGeneration newStatus"
    and "written podSet newStatus \<equiv>
             podSet\<lparr>Status := newStatus\<lparr>ObservedGeneration := Generation podSet\<rparr>\<rparr>"
  shows "(unchanged podSet newStatus \<longleftrightarrow>
            updatePodSetStatus r podSet newStatus = (Inr podSet, [])) \<and>
         (unchanged podSet newStatus \<longleftrightarrow> snd (updatePodSetStatus r podSet newStatus) = []) \<and>
         (\<not> unchanged podSet newStatus \<longrightarrow>
            updatePodSetStatus r podSet newStatus =
              (case rStatusUpdate r (written podSet newStatus) of
                 (Some err, obj) \<Rightarrow> Inl err
               | (None, obj) \<Rightarrow> Inr obj,
               [CallStatusUpdate (written podSet newStatus)])) \<and>
         (unchanged podSet (calculateStatus r podSet pods replicasErr) \<longleftrightarrow>
            sameCounts (Status podSet) (calculateStatus r podSet pods replicasErr) \<and>
            Generation podSet = ObservedGeneration (Status podSet)) \<and>
         (\<forall>podSet'.
            fst (updatePodSetStatus r podSet (calculateStatus r podSet pods replicasErr)) =
              Inr podSet' \<and>
            Status podSet' =
              (calculateStatus r podSet pods replicasErr)
                \<lparr>ObservedGeneration := Generation podSet\<rparr> \<and>
            Generation podSet' = Generation podSet \<and>
            sameCounts (calculateStatus r' podSet' pods' replicasErr')
              (calculateStatus r podSet pods replicasErr) \<longrightarrow>
            updatePodSetStatus r' podSet' (calculateStatus r' podSet' pods' replicasErr') =
              (Inr podSet', []))"
proof -
  have a: "unchanged podSet newStatus \<longleftrightarrow>
            updatePodSetStatus r podSet newStatus = (Inr podSet, [])"
  proof (cases "unchanged podSet newStatus")
    case True
    then show ?thesis
      by (simp add: unchanged_def updatePodSetStatus_unchanged)
  next
    case False
    then have "snd (updatePodSetStatus r podSet newStatus) \<noteq> []"
      by (simp add: unchanged_def updatePodSetStatus_changed)
    with False show ?thesis
      by auto
  qed
  have b: "unchanged podSet newStatus \<longleftrightarrow> snd (updatePodSetStatus r podSet newStatus) = []"
  proof (cases "unchanged podSet newStatus")
    case True
    then show ?thesis
      by (simp add: unchanged_def updatePodSetStatus_unchanged)
  next
    case False
    then show ?thesis
      by (simp add: unchanged_def updatePodSetStatus_changed)
  qed
  have c: "\<not> unchanged podSet newStatus \<longrightarrow>
            updatePodSetStatus r podSet newStatus =
              (case rStatusUpdate r (written podSet newStatus) of
                 (Some err, obj) \<Rightarrow> Inl err
               | (None, obj) \<Rightarrow> Inr obj,
               [CallStatusUpdate (written podSet newStatus)])"
    by (simp add: unchanged_def written_def updatePodSetStatus_changed)
  have d: "unchanged podSet (calculateStatus r podSet pods replicasErr) \<longleftrightarrow>
            sameCounts (Status podSet) (calculateStatus r podSet pods replicasErr) \<and>
            Generation podSet = ObservedGeneration (Status podSet)"
    by (simp add: unchanged_def calculateStatus_ObservedGeneration)
  have e: "updatePodSetStatus r' podSet' (calculateStatus r' podSet' pods' replicasErr') =
              (Inr podSet', [])"
    if st: "Status podSet' =
              (calculateStatus r podSet pods replicasErr)
                \<lparr>ObservedGeneration := Generation podSet\<rparr>"
      and gen: "Generation podSet' = Generation podSet"
      and same: "sameCounts (calculateStatus r' podSet' pods' replicasErr')
              (calculateStatus r podSet pods replicasErr)"
    for podSet'
  proof (rule updatePodSetStatus_unchanged)
    show "sameCounts (Status podSet') (calculateStatus r' podSet' pods' replicasErr')"
      using same by (simp add: st sameCounts_def)
    show "Generation podSet' = ObservedGeneration (calculateStatus r' podSet' pods' replicasErr')"
      by (simp add: calculateStatus_ObservedGeneration st gen)
  qed
  from a b c d e show ?thesis
    by blast
qed

theorem updatePodSetStatus_commit_witness:
  "updatePodSetStatus demoEnv (demoPodSet 1)
     (calculateStatus demoEnv (demoPodSet 1) [demoPod ''a'' True] None) =
     (Inr ((demoPodSet 1)\<lparr>Status :=
             \<lparr> Replicas = 1, ReadyReplicas = 1, AvailableReplicas = 1,
               ObservedGeneration = 1 \<rparr>\<rparr>),
      [CallStatusUpdate ((demoPodSet 1)\<lparr>Status :=
             \<lparr> Replicas = 1, ReadyReplicas = 1, AvailableReplicas = 1,
               ObservedGeneration = 1 \<rparr>\<rparr>)]) \<and>
   updatePodSetStatus demoEnv
     ((demoPodSet 1)\<lparr>Status :=
        \<lparr> Replicas = 1, ReadyReplicas = 1, AvailableReplicas = 1, ObservedGeneration = 1 \<rparr>\<rparr>)
     (calculateStatus demoEnv
        ((demoPodSet 1)\<lparr>Status :=
           \<lparr> Replicas = 1, ReadyReplicas = 1, AvailableReplicas = 1,
             ObservedGeneration = 1 \<rparr>\<rparr>)
        [demoPod ''a'' True] None) =
     (Inr ((demoPodSet 1)\<lparr>Status :=
             \<lparr> Replicas = 1, ReadyReplicas = 1, AvailableReplicas = 1,
               ObservedGeneration = 1 \<rparr>\<rparr>), [])"
  using updatePodSetStatus_commit
          [where r = demoEnv and r' = demoEnv and podSet = "demoPodSet 1"
             and newStatus = "calculateStatus demoEnv (demoPodSet 1) [demoPod ''a'' True] None"
             and pods = "[demoPod ''a'' True]" and pods' = "[demoPod ''a'' True]"
             and replicasErr = None and replicasErr' = None]
  by (simp add: calculateStatus_fields sameCounts_def demoEnv_def demoPod_def demoPodSet_def
        enumerate_eq_zip)

text \<open>
  Claim C3 as stated compares the generation with the stored \<open>ObservedGeneration\<close>. The
  code compares it with the one of \<open>newStatus\<close>, and the two readings part both ways.
  With equal counts, generation 1, stored \<open>ObservedGeneration\<close> 0 and \<open>ObservedGeneration\<close> 1
  in \<open>newStatus\<close>, the commit is a no-op although the generation differs from the stored
  \<open>ObservedGeneration\<close>. And a commit of new counts with the \<open>ObservedGeneration\<close> 0 in
  \<open>newStatus\<close> writes, and the same \<open>newStatus\<close> committed again on the record returned
  (stored counts equal, stored \<open>ObservedGeneration\<close> equal to the generation) writes again.
\<close>

theorem updatePodSetStatus_compares_newStatus:
  "updatePodSetStatus demoEnv (demoPodSet 1)
     \<lparr> Replicas = 1, ReadyReplicas = 1, AvailableReplicas = 1, ObservedGeneration = 1 \<rparr> =
     (Inr (demoPodSet 1), []) \<and>
   Status (demoPodSet 1) =
     \<lparr> Replicas = 1, ReadyReplicas = 1, AvailableReplicas = 1, ObservedGeneration = 0 \<rparr> \<and>
   Generation (demoPodSet 1) = 1 \<and>
   Generation (demoPodSet 1) \<noteq> ObservedGeneration (Status (demoPodSet 1)) \<and>
   updatePodSetStatus demoEnv (demoPodSet 1)
     \<lparr> Replicas = 2, ReadyReplicas = 2, AvailableReplicas = 2, ObservedGeneration = 0 \<rparr> =
     (Inr ((demoPodSet 1)\<lparr>Status :=
             \<lparr> Replicas = 2, ReadyReplicas = 2, AvailableReplicas = 2,
               ObservedGeneration = 1 \<rparr>\<rparr>),
      [CallStatusUpdate ((demoPodSet 1)\<lparr>Status :=
             \<lparr> Replicas = 2, ReadyReplicas = 2, AvailableReplicas = 2,
               ObservedGeneration = 1 \<rparr>\<rparr>)]) \<and>
   updatePodSetStatus demoEnv
     ((demoPodSet 1)\<lparr>Status :=
        \<lparr> Replicas = 2, ReadyReplicas = 2, AvailableReplicas = 2, ObservedGeneration = 1 \<rparr>\<rparr>)
     \<lparr> Replicas = 2, ReadyReplicas = 2, AvailableReplicas = 2, ObservedGeneration = 0 \<rparr> =
     (Inr ((demoPodSet 1)\<lparr>Status :=
             \<lparr> Replicas = 2, ReadyReplicas = 2, AvailableReplicas = 2,
               ObservedGeneration = 1 \<rparr>\<rparr>),
      [CallStatusUpdate ((demoPodSet 1)\<lparr>Status :=
             \<lparr> Replicas = 2, ReadyReplicas = 2, AvailableReplicas = 2,
               ObservedGeneration = 1 \<rparr>\<rparr>)])"
  by (simp add: updatePodSetStatus_def demoPodSet_def demoEnv_def Let_def)

section \<open>Replica management\<close>



text \<open>
  Claim C4. On scale-down, when the slice of pods to delete is taken and every delete of
  the batch either succeeds or fails with a not-found error, \<open>manageReplicas\<close> returns
  \<open>nil\<close>, after one delete call for each pod of the batch.
\<close>

theorem delete_batch_not_found_is_success:
  assumes "SpecReplicas (Spec podSet) = Some replicas"
    and "sint replicas < int (length filteredPods)"
    and "getPodsToDelete filteredPods
           (min (int (length filteredPods) - sint replicas) (BurstReplicas r)) =
         Returned victims"
    and "\<forall>i < length victims. notFoundOrDone (deleteAnswer r victims i)"
  shows "fst (manageReplicas r filteredPods podSet) = Returned None \<and>
         length (filter isCallDelete (snd (manageReplicas r filteredPods podSet))) =
           length victims"
proof -
  have "\<forall>i \<in> set (goroutineOrder r (length victims)). notFoundOrDone (deleteAnswer r victims i)"
    using assms(4) by (simp add: set_goroutineOrder)
  then have quiet:
    "concat (map (deleteSent r victims) (goroutineOrder r (length victims))) = []"
    by (rule deleteSent_quiet)
  show ?thesis
    unfolding manageReplicas_delete_branch [OF assms(1,2,3)] quiet
    by (simp add: deleteCalls_concat_count length_goroutineOrder)
qed

theorem delete_batch_not_found_is_success_witness:
  "fst (manageReplicas demoEnv [demoPod ''a'' True, demoPod ''c'' True, demoPod ''b'' True]
          (demoPodSet 1)) = Returned None \<and>
   deleteAnswer demoEnv [demoPod ''a'' True, demoPod ''c'' True] 0 =
     Some (StatusError True False ''not found'') \<and>
   deleteAnswer demoEnv [demoPod ''a'' True, demoPod ''c'' True] 1 = None"
  using delete_batch_not_found_is_success
          [of "demoPodSet 1" 1 "[demoPod ''a'' True, demoPod ''c'' True, demoPod ''b'' True]"
              demoEnv "[demoPod ''a'' True, demoPod ''c'' True]"]
  by (simp add: demoPodSet_def demoEnv_def demoPod_def getPodsToDelete_def deleteAnswer_def
        notFoundOrDone_def less_Suc_eq)

text \<open>
  Claim C10, amended. When the desired count is not negative and \<open>BurstReplicas\<close> is
  positive, the scale-down branch of \<open>manageReplicas\<close> computes a delete count \<open>diff\<close> with
  \<open>0 < diff \<le> len(filteredPods)\<close>, \<open>getPodsToDelete\<close> returns the prefix of that length
  without a panic, \<open>manageReplicas\<close> returns, and it issues exactly \<open>diff\<close> deletes.
\<close>

theorem scale_down_in_bounds:
  assumes rep: "SpecReplicas (Spec podSet) = Some replicas"
    and nonneg: "0 \<le> sint replicas"
    and down: "sint replicas < int (length filteredPods)"
    and burst: "0 < BurstReplicas r"
  shows "\<exists>diff out tr.
           diff = min (int (length filteredPods) - sint replicas) (BurstReplicas r) \<and>
           0 < diff \<and> diff \<le> int (length filteredPods) \<and>
           getPodsToDelete filteredPods diff = Returned (take (nat diff) filteredPods) \<and>
           manageReplicas r filteredPods podSet =
             (Returned out,
              CallLogInfo ''Too many replicas'' (ObjNamespace podSet, ObjName podSet)
                (sint replicas) ''deleting'' diff # tr) \<and>
           int (length (filter isCallDelete tr)) = diff"
proof -
  let ?diff = "min (int (length filteredPods) - sint replicas) (BurstReplicas r)"
  let ?victims = "take (nat ?diff) filteredPods"
  have pos: "0 < ?diff"
    using down burst by simp
  have le: "?diff \<le> int (length filteredPods)"
    using nonneg by simp
  have inside: "\<not> (?diff < 0 \<or> int (length filteredPods) < ?diff)"
    using pos le by linarith
  have cut: "getPodsToDelete filteredPods ?diff = Returned ?victims"
    unfolding getPodsToDelete_def using inside by (simp only: if_False)
  have len: "int (length ?victims) = ?diff"
    using pos le by simp
  have count: "int (length (filter isCallDelete
                  (concat (map (deleteCalls r ?victims) (goroutineOrder r (length ?victims)))))) =
               ?diff"
    unfolding conjunct1 [OF deleteCalls_concat_count] length_goroutineOrder by (rule len)
  define sent where
    "sent = concat (map (deleteSent r ?victims) (goroutineOrder r (length ?victims)))"
  obtain out where out:
    "(case sent of err # rest \<Rightarrow> Returned (Some err) | [] \<Rightarrow> Returned None) = Returned out"
    by (cases sent) simp_all
  have run: "manageReplicas r filteredPods podSet =
      (Returned out,
       CallLogInfo ''Too many replicas'' (ObjNamespace podSet, ObjName podSet)
         (sint replicas) ''deleting'' ?diff #
       concat (map (deleteCalls r ?victims) (goroutineOrder r (length ?victims))))"
    unfolding manageReplicas_delete_branch [OF rep down cut] sent_def [symmetric] out ..
  from pos le cut run count show ?thesis
    by blast
qed

theorem scale_down_in_bounds_witness:
  "manageReplicas demoEnv [demoPod ''c'' True, demoPod ''d'' True] (demoPodSet 1) =
     (Returned None,
      [CallLogInfo ''Too many replicas'' (''ns'', ''demo'') 1 ''deleting'' 1,
       CallDelete ''ns'' ''c''])"
  using scale_down_in_bounds
          [of "demoPodSet 1" 1 "[demoPod ''c'' True, demoPod ''d'' True]" demoEnv]
  by (simp add: demoPodSet_def demoEnv_def demoPod_def manageReplicas_def getPodsToDelete_def
        goroutineOrder_def deleteGoroutine_def deletePod_def)

text \<open>
  Claim C10 as stated, for every scale-down, fails for a negative desired count
  (\<open>Spec.Replicas\<close> is an \<open>int32\<close>): with no active pod and \<open>-1\<close> desired the branch is
  taken with \<open>diff = 1\<close>, above the length of the list, and the slice expression panics.
\<close>

theorem scale_down_negative_replicas:
  "manageReplicas demoEnv [] (demoPodSet (- 1)) =
     (Panicked SliceBoundsOutOfRange,
      [CallLogInfo ''Too many replicas'' (''ns'', ''demo'') (- 1) ''deleting'' 1]) \<and>
   getPodsToDelete ([] :: bool Pod list) 1 = Panicked SliceBoundsOutOfRange \<and>
   int (length ([] :: bool Pod list)) < 1"
  by (simp add: demoPodSet_def demoEnv_def manageReplicas_def getPodsToDelete_def)

text \<open>
  Claim C1, at an input where it fails. One pod is wanted and none is active, so
  \<open>manageReplicas\<close> runs a create batch of one; the store refuses the create. The goroutine
  sends the error on \<open>errCh\<close>, but \<open>createPodsInBatch\<close> returns \<open>0, nil\<close> without reading the
  channel, and \<open>manageReplicas\<close> returns \<open>nil\<close>: a batch with one failed create reports no
  error. The delete path reads the channel: a batch with one refused delete returns the
  error.
\<close>

theorem createPodsInBatch_drops_errors:
  "manageReplicas demoEnv [] (demoPodSet 1) =
     (Returned None,
      [CallLogInfo ''Too few replicas'' (''ns'', ''demo'') 1 ''creating'' 1,
       CallCreate (demoPod [] False)]) \<and>
   rCreate demoEnv 0 (demoPod [] False) = Some (OtherError ''create refused'') \<and>
   createPodsInBatch demoEnv 1 1
     (\<lambda>i. (Returned (Some (OtherError ''create refused'')), [])) = (Returned (0, None), []) \<and>
   fst (manageReplicas demoEnv [demoPod ''b'' True, demoPod ''c'' True] (demoPodSet 1)) =
     Returned (Some (FailedToDeletePod (OtherError ''delete refused'')))"
  by (simp add: demoEnv_def demoPodSet_def demoPod_def manageReplicas_def createPodsInBatch_def
        createGoroutine_def createPod_def NewControllerRef_def goroutineOrder_def
        getPodsToDelete_def deleteGoroutine_def deletePod_def)

text \<open>
  The create path in general. On scale-up, when \<open>BurstReplicas\<close> is not negative and the
  creates reach the store, \<open>manageReplicas\<close> issues exactly \<open>min (D - A) BurstReplicas\<close>
  creates and no delete, and returns \<open>nil\<close> whatever the store answers to the creates.
\<close>

theorem scale_up_creates:
  assumes rep: "SpecReplicas (Spec podSet) = Some replicas"
    and up: "int (length filteredPods) < sint replicas"
    and burst: "0 \<le> BurstReplicas r"
    and ok: "createAccepted r podSet"
  shows "fst (manageReplicas r filteredPods podSet) = Returned None \<and>
         int (length (filter isCallCreate (snd (manageReplicas r filteredPods podSet)))) =
           min (sint replicas - int (length filteredPods)) (BurstReplicas r) \<and>
         filter isCallDelete (snd (manageReplicas r filteredPods podSet)) = []"
proof -
  let ?diff = "int (length filteredPods) - sint replicas"
  let ?amount = "min (sint replicas - int (length filteredPods)) (BurstReplicas r)"
  let ?fn = "\<lambda>i. createPod r i (ObjNamespace podSet) (SpecTemplate (Spec podSet)) podSet
                     (NewControllerRef podSet (GroupVersionKind r))"
  have clamp: "(if ?diff * (- 1) > BurstReplicas r then BurstReplicas r else ?diff * (- 1)) =
                 ?amount"
    by (simp add: min_def)
  have neg: "?diff < 0"
    using up by simp
  have amount: "0 \<le> ?amount"
    using up burst by simp
  from waitGroup_counts [of "goroutineOrder r (nat ?amount)" "createGoroutine ?fn"]
    createGoroutine_accepted [OF ok]
  obtain errCh tr where
    batch: "waitGroup (map (createGoroutine ?fn) (goroutineOrder r (nat ?amount))) =
              (Returned errCh, tr)"
    and count: "length (filter isCallCreate tr) = length (goroutineOrder r (nat ?amount))"
      "filter isCallDelete tr = []"
    by blast
  have run: "manageReplicas r filteredPods podSet =
               (Returned None,
                CallLogInfo ''Too few replicas'' (ObjNamespace podSet, ObjName podSet)
                  (sint replicas) ''creating'' ?amount # tr)"
    unfolding manageReplicas_def rep option.case Let_def clamp createPodsInBatch_def
    using neg amount batch by simp
  show ?thesis
    unfolding run using count amount by (simp add: length_goroutineOrder)
qed

theorem scale_up_creates_witness:
  "manageReplicas demoEnv [demoPod ''a'' True] (demoPodSet 3) =
     (Returned None,
      [CallLogInfo ''Too few replicas'' (''ns'', ''demo'') 3 ''creating'' 2,
       CallCreate (demoPod [] False), CallCreate (demoPod [] False)]) \<and>
   createAccepted demoEnv (demoPodSet 3) \<and>
   rCreate demoEnv 0 (demoPod [] False) = Some (OtherError ''create refused'') \<and>
   rCreate demoEnv 1 (demoPod [] False) = Some (OtherError ''create refused'')"
  using scale_up_creates [of "demoPodSet 3" 3 "[demoPod ''a'' True]" demoEnv]
  by (simp add: demoEnv_def demoPodSet_def demoPod_def manageReplicas_def createPodsInBatch_def
        createGoroutine_def createPod_def NewControllerRef_def goroutineOrder_def
        createAccepted_def numeral_2_eq_2)

text \<open>
  The delete path in general. On scale-down, when the slice of pods to delete is taken,
  \<open>manageReplicas\<close> returns an error if and only if some delete of the batch fails with an
  error other than not-found, and the error returned is \<open>failed to delete pod\<close> of one of
  those failures.
\<close>

theorem delete_batch_reports_failure:
  assumes rep: "SpecReplicas (Spec podSet) = Some replicas"
    and down: "sint replicas < int (length filteredPods)"
    and cut: "getPodsToDelete filteredPods
                (min (int (length filteredPods) - sint replicas) (BurstReplicas r)) =
              Returned victims"
  shows "((\<exists>err. fst (manageReplicas r filteredPods podSet) = Returned (Some err)) \<longleftrightarrow>
            (\<exists>i < length victims. \<not> notFoundOrDone (deleteAnswer r victims i))) \<and>
         (\<forall>err. fst (manageReplicas r filteredPods podSet) = Returned (Some err) \<longrightarrow>
            (\<exists>i < length victims. \<exists>cause.
               deleteAnswer r victims i = Some cause \<and> \<not> IsNotFound cause \<and>
               err = FailedToDeletePod cause))"
proof -
  define sent where
    "sent = concat (map (deleteSent r victims) (goroutineOrder r (length victims)))"
  have run: "fst (manageReplicas r filteredPods podSet) =
               (case sent of err # rest \<Rightarrow> Returned (Some err) | [] \<Rightarrow> Returned None)"
    unfolding manageReplicas_delete_branch [OF rep down cut] sent_def by simp
  have loud: "sent \<noteq> []" if "i < length victims" "\<not> notFoundOrDone (deleteAnswer r victims i)"
    for i
    unfolding sent_def using that by (intro deleteSent_loud [of i]) (simp_all add: set_goroutineOrder)
  have quiet: "sent = []" if "\<forall>i < length victims. notFoundOrDone (deleteAnswer r victims i)"
    unfolding sent_def using that by (intro deleteSent_quiet) (simp add: set_goroutineOrder)
  have origin: "\<exists>i < length victims. \<exists>cause.
               deleteAnswer r victims i = Some cause \<and> \<not> IsNotFound cause \<and>
               err = FailedToDeletePod cause" if "sent = err # rest" for err rest
  proof -
    have "err \<in> set (concat (map (deleteSent r victims) (goroutineOrder r (length victims))))"
      using that unfolding sent_def by (metis list.set_intros(1))
    from deleteSent_members [OF this] show ?thesis
      by (auto simp add: set_goroutineOrder)
  qed
  have iff: "(\<exists>err. fst (manageReplicas r filteredPods podSet) = Returned (Some err)) \<longleftrightarrow>
            (\<exists>i < length victims. \<not> notFoundOrDone (deleteAnswer r victims i))"
  proof (cases sent)
    case Nil
    then have "\<forall>i < length victims. notFoundOrDone (deleteAnswer r victims i)"
      using loud by blast
    then show ?thesis
      by (simp add: run Nil)
  next
    case (Cons err rest)
    from origin [OF Cons] have "\<exists>i < length victims. \<not> notFoundOrDone (deleteAnswer r victims i)"
      by (auto simp add: notFoundOrDone_def)
    then show ?thesis
      by (simp add: run Cons)
  qed
  have which: "\<forall>err. fst (manageReplicas r filteredPods podSet) = Returned (Some err) \<longrightarrow>
            (\<exists>i < length victims. \<exists>cause.
               deleteAnswer r victims i = Some cause \<and> \<not> IsNotFound cause \<and>
               err = FailedToDeletePod cause)"
  proof (cases sent)
    case Nil
    then show ?thesis
      by (simp add: run)
  next
    case (Cons err rest)
    from origin [OF Cons] show ?thesis
      by (simp add: run Cons)
  qed
  from iff which show ?thesis
    by blast
qed

theorem delete_batch_reports_failure_witness:
  "fst (manageReplicas demoEnv [demoPod ''a'' True, demoPod ''b'' True, demoPod ''c'' True]
          (demoPodSet 1)) =
     Returned (Some (FailedToDeletePod (OtherError ''delete refused''))) \<and>
   deleteAnswer demoEnv [demoPod ''a'' True, demoPod ''b'' True] 1 =
     Some (OtherError ''delete refused'')"
proof -
  let ?pods = "[demoPod ''a'' True, demoPod ''b'' True, demoPod ''c'' True]"
  let ?victims = "[demoPod ''a'' True, demoPod ''b'' True]"
  have rep: "SpecReplicas (Spec (demoPodSet 1)) = Some 1"
    by (simp add: demoPodSet_def)
  have down: "sint (1 :: int32) < int (length ?pods)"
    by simp
  have cut: "getPodsToDelete ?pods (min (int (length ?pods) - sint (1 :: int32))
                (BurstReplicas demoEnv)) = Returned ?victims"
    by (simp add: getPodsToDelete_def demoEnv_def)
  have answers: "deleteAnswer demoEnv ?victims 0 = Some (StatusError True False ''not found'')"
    "deleteAnswer demoEnv ?victims 1 = Some (OtherError ''delete refused'')"
    by (simp_all add: deleteAnswer_def demoEnv_def demoPod_def)
  have "\<exists>i < length ?victims. \<not> notFoundOrDone (deleteAnswer demoEnv ?victims i)"
    by (rule exI [of _ "Suc 0"]) (simp add: deleteAnswer_def demoEnv_def demoPod_def notFoundOrDone_def)
  with delete_batch_reports_failure [OF rep down cut] obtain err i cause where
    err: "fst (manageReplicas demoEnv ?pods (demoPodSet 1)) = Returned (Some err)"
    and i: "i < length ?victims" "deleteAnswer demoEnv ?victims i = Some cause"
      "\<not> IsNotFound cause" "err = FailedToDeletePod cause"
    by blast
  from i have "i = 0 \<or> i = 1"
    by auto
  with i answers have "cause = OtherError ''delete refused''"
    by auto
  with err i answers show ?thesis
    by simp
qed

section \<open>The reconcile pass\<close>

text \<open>
  Claim C5. In a pass whose workload carries a deletion marker, \<open>Reconcile\<close> issues no
  create and no delete; and when the selector parses and the pods are listed, the status
  is calculated from the active pods (with no replica error) and committed: the pass makes
  the calls of \<open>updatePodSetStatus\<close> on that status after the get and the list, and requests
  a requeue exactly when the commit fails.
\<close>

theorem Reconcile_deletion_marker:
  assumes get: "rGet r req = Inr podSet"
    and marked: "DeletionTimestamp podSet = Some t"
  shows "filter isCallCreate (snd (Reconcile r req)) = [] \<and>
         filter isCallDelete (snd (Reconcile r req)) = [] \<and>
         (\<forall>labelSelector allPods.
            parsePodSelector r podSet = Inr labelSelector \<and>
            rList r (ReqNamespace req) labelSelector = Inr allPods \<longrightarrow>
            Reconcile r req =
              (Returned
                 (\<lparr>Requeue =
                     (case fst (updatePodSetStatus r podSet
                                  (calculateStatus r podSet (FilterActivePods r allPods) None)) of
                        Inl err \<Rightarrow> True
                      | Inr updated \<Rightarrow> False)\<rparr>,
                  None),
               [CallLogV1Info ''reconciling pod set operator'', CallGet req,
                CallList (ReqNamespace req) labelSelector] @
               snd (updatePodSetStatus r podSet
                      (calculateStatus r podSet (FilterActivePods r allPods) None))))"
proof -
  have step: "(if DeletionTimestamp podSet = None
                then manageReplicas r pods podSet
                else (Returned None, [])) = (Returned None, [])" for pods
    using marked by simp
  have run: "Reconcile r req =
              (Returned
                 (\<lparr>Requeue =
                     (case fst (updatePodSetStatus r podSet
                                  (calculateStatus r podSet (FilterActivePods r allPods) None)) of
                        Inl err \<Rightarrow> True
                      | Inr updated \<Rightarrow> False)\<rparr>,
                  None),
               [CallLogV1Info ''reconciling pod set operator'', CallGet req,
                CallList (ReqNamespace req) labelSelector] @
               snd (updatePodSetStatus r podSet
                      (calculateStatus r podSet (FilterActivePods r allPods) None)))"
    if "parsePodSelector r podSet = Inr labelSelector"
      and "rList r (ReqNamespace req) labelSelector = Inr allPods"
    for labelSelector allPods
    using Reconcile_listed [OF get that step] by simp
  have quiet: "filter isCallCreate (snd (Reconcile r req)) = [] \<and>
               filter isCallDelete (snd (Reconcile r req)) = []"
  proof (cases "parsePodSelector r podSet")
    case noSelector: (Inl err)
    show ?thesis
      unfolding Reconcile_def Let_def using get noSelector by simp
  next
    case selector: (Inr labelSelector)
    show ?thesis
    proof (cases "rList r (ReqNamespace req) labelSelector")
      case noList: (Inl err)
      show ?thesis
        unfolding Reconcile_def Let_def using get selector noList by simp
    next
      case listed: (Inr allPods)
      show ?thesis
        unfolding run [OF selector listed] by (simp add: updatePodSetStatus_quiet)
    qed
  qed
  from quiet run show ?thesis
    by blast
qed

theorem Reconcile_deletion_marker_witness:
  "Reconcile markedEnv demoRequest =
     (Returned (\<lparr>Requeue = False\<rparr>, None),
      [CallLogV1Info ''reconciling pod set operator'', CallGet demoRequest,
       CallList ''ns'' (),
       CallStatusUpdate
         (markedPodSet\<lparr>Status := \<lparr> Replicas = 2, ReadyReplicas = 1, AvailableReplicas = 1,
                                    ObservedGeneration = 1 \<rparr>\<rparr>)]) \<and>
   DeletionTimestamp markedPodSet = Some 7 \<and>
   SpecReplicas (Spec markedPodSet) = Some 5"
proof -
  have get: "rGet markedEnv demoRequest = Inr markedPodSet"
    by (simp add: markedEnv_def)
  have marked: "DeletionTimestamp markedPodSet = Some 7"
    by (simp add: markedPodSet_def)
  have sel: "parsePodSelector markedEnv markedPodSet = Inr ()"
    by (simp add: markedEnv_def demoEnv_def)
  have lst: "rList markedEnv (ReqNamespace demoRequest) () =
               Inr [demoPod ''a'' True, demoPod ''b'' False]"
    by (simp add: markedEnv_def)
  from Reconcile_deletion_marker [OF get marked] sel lst
  have "Reconcile markedEnv demoRequest =
          (Returned
             (\<lparr>Requeue =
                 (case fst (updatePodSetStatus markedEnv markedPodSet
                              (calculateStatus markedEnv markedPodSet
                                 (FilterActivePods markedEnv
                                    [demoPod ''a'' True, demoPod ''b'' False]) None)) of
                    Inl err \<Rightarrow> True
                  | Inr updated \<Rightarrow> False)\<rparr>,
              None),
           [CallLogV1Info ''reconciling pod set operator'', CallGet demoRequest,
            CallList (ReqNamespace demoRequest) ()] @
           snd (updatePodSetStatus markedEnv markedPodSet
                  (calculateStatus markedEnv markedPodSet
                     (FilterActivePods markedEnv
                        [demoPod ''a'' True, demoPod ''b'' False]) None)))"
    by blast
  moreover have "calculateStatus markedEnv markedPodSet
                   (FilterActivePods markedEnv [demoPod ''a'' True, demoPod ''b'' False]) None =
                 \<lparr> Replicas = 2, ReadyReplicas = 1, AvailableReplicas = 1,
                   ObservedGeneration = 0 \<rparr>"
    by (simp add: markedEnv_def markedPodSet_def demoEnv_def demoPodSet_def demoPod_def
          calculateStatus_fields enumerate_eq_zip)
  moreover have "updatePodSetStatus markedEnv markedPodSet
                   \<lparr> Replicas = 2, ReadyReplicas = 1, AvailableReplicas = 1,
                     ObservedGeneration = 0 \<rparr> =
                 (Inr (markedPodSet\<lparr>Status :=
                         \<lparr> Replicas = 2, ReadyReplicas = 1, AvailableReplicas = 1,
                           ObservedGeneration = 1 \<rparr>\<rparr>),
                  [CallStatusUpdate
                     (markedPodSet\<lparr>Status :=
                         \<lparr> Replicas = 2, ReadyReplicas = 1, AvailableReplicas = 1,
                           ObservedGeneration = 1 \<rparr>\<rparr>)])"
    by (simp add: markedEnv_def markedPodSet_def demoEnv_def demoPodSet_def
          updatePodSetStatus_def Let_def)
  ultimately have "Reconcile markedEnv demoRequest =
     (Returned (\<lparr>Requeue = False\<rparr>, None),
      [CallLogV1Info ''reconciling pod set operator'', CallGet demoRequest,
       CallList (ReqNamespace demoRequest) (),
       CallStatusUpdate
         (markedPodSet\<lparr>Status := \<lparr> Replicas = 2, ReadyReplicas = 1, AvailableReplicas = 1,
                                    ObservedGeneration = 1 \<rparr>\<rparr>)])"
    by simp
  then show ?thesis
    by (simp add: marked) (simp add: demoRequest_def markedPodSet_def demoPodSet_def)
qed

text \<open>
  Claim C6. \<open>Reconcile\<close> returns no error on every path, and: a not-found get ends the
  pass with no requeue; any other get error, a selector-parse error and a list error each
  end the pass at once with a requeue (the trace shows no later call); and when
  \<open>manageReplicas\<close> returns, with an error or without, the status is calculated with that
  error, the commit is attempted, and the pass requests a requeue exactly when the commit
  fails - also when \<open>manageReplicas\<close> returned an error.
\<close>

theorem Reconcile_outcomes:
  "(\<forall>err. rGet r req = Inl err \<and> IsNotFound err \<longrightarrow>
      Reconcile r req =
        (Returned (\<lparr>Requeue = False\<rparr>, None),
         [CallLogV1Info ''reconciling pod set operator'', CallGet req])) \<and>
   (\<forall>err. rGet r req = Inl err \<and> \<not> IsNotFound err \<longrightarrow>
      Reconcile r req =
        (Returned (\<lparr>Requeue = True\<rparr>, None),
         [CallLogV1Info ''reconciling pod set operator'', CallGet req,
          CallLogError err ''error requesting pod set operator''])) \<and>
   (\<forall>podSet err. rGet r req = Inr podSet \<and> parsePodSelector r podSet = Inl err \<longrightarrow>
      Reconcile r req =
        (Returned (\<lparr>Requeue = True\<rparr>, None),
         [CallLogV1Info ''reconciling pod set operator'', CallGet req])) \<and>
   (\<forall>podSet labelSelector err.
      rGet r req = Inr podSet \<and> parsePodSelector r podSet = Inr labelSelector \<and>
      rList r (ReqNamespace req) labelSelector = Inl err \<longrightarrow>
      Reconcile r req =
        (Returned (\<lparr>Requeue = True\<rparr>, None),
         [CallLogV1Info ''reconciling pod set operator'', CallGet req,
          CallList (ReqNamespace req) labelSelector, CallLogError err ''error list pods''])) \<and>
   (\<forall>podSet labelSelector allPods replicasErr tr.
      rGet r req = Inr podSet \<and> parsePodSelector r podSet = Inr labelSelector \<and>
      rList r (ReqNamespace req) labelSelector = Inr allPods \<and>
      DeletionTimestamp podSet = None \<and>
      manageReplicas r (FilterActivePods r allPods) podSet = (Returned replicasErr, tr) \<longrightarrow>
      Reconcile r req =
        (Returned
           (\<lparr>Requeue =
               (case fst (updatePodSetStatus r podSet
                            (calculateStatus r podSet (FilterActivePods r allPods)
                               replicasErr)) of
                  Inl err \<Rightarrow> True
                | Inr updated \<Rightarrow> False)\<rparr>,
            None),
         [CallLogV1Info ''reconciling pod set operator'', CallGet req,
          CallList (ReqNamespace req) labelSelector] @ tr @
         snd (updatePodSetStatus r podSet
                (calculateStatus r podSet (FilterActivePods r allPods) replicasErr))))"
proof -
  have a: "Reconcile r req =
        (Returned (\<lparr>Requeue = False\<rparr>, None),
         [CallLogV1Info ''reconciling pod set operator'', CallGet req])"
    if "rGet r req = Inl err" and "IsNotFound err" for err
    unfolding Reconcile_def Let_def using that by simp
  have b: "Reconcile r req =
        (Returned (\<lparr>Requeue = True\<rparr>, None),
         [CallLogV1Info ''reconciling pod set operator'', CallGet req,
          CallLogError err ''error requesting pod set operator''])"
    if "rGet r req = Inl err" and "\<not> IsNotFound err" for err
    unfolding Reconcile_def Let_def using that by simp
  have c: "Reconcile r req =
        (Returned (\<lparr>Requeue = True\<rparr>, None),
         [CallLogV1Info ''reconciling pod set operator'', CallGet req])"
    if "rGet r req = Inr podSet" and "parsePodSelector r podSet = Inl err" for podSet err
    unfolding Reconcile_def Let_def using that by simp
  have d: "Reconcile r req =
        (Returned (\<lparr>Requeue = True\<rparr>, None),
         [CallLogV1Info ''reconciling pod set operator'', CallGet req,
          CallList (ReqNamespace req) labelSelector, CallLogError err ''error list pods''])"
    if "rGet r req = Inr podSet" and "parsePodSelector r podSet = Inr labelSelector"
      and "rList r (ReqNamespace req) labelSelector = Inl err" for podSet labelSelector err
    unfolding Reconcile_def Let_def using that by simp
  have e: "Reconcile r req =
        (Returned
           (\<lparr>Requeue =
               (case fst (updatePodSetStatus r podSet
                            (calculateStatus r podSet (FilterActivePods r allPods)
                               replicasErr)) of
                  Inl err \<Rightarrow> True
                | Inr updated \<Rightarrow> False)\<rparr>,
            None),
         [CallLogV1Info ''reconciling pod set operator'', CallGet req,
          CallList (ReqNamespace req) labelSelector] @ tr @
         snd (updatePodSetStatus r podSet
                (calculateStatus r podSet (FilterActivePods r allPods) replicasErr)))"
    if "rGet r req = Inr podSet" and "parsePodSelector r podSet = Inr labelSelector"
      and "rList r (ReqNamespace req) labelSelector = Inr allPods"
      and "DeletionTimestamp podSet = None"
      and "manageReplicas r (FilterActivePods r allPods) podSet = (Returned replicasErr, tr)"
    for podSet labelSelector allPods replicasErr tr
  proof (rule Reconcile_listed [OF that(1,2,3)])
    show "(if DeletionTimestamp podSet = None
           then manageReplicas r (FilterActivePods r allPods) podSet
           else (Returned None, [])) = (Returned replicasErr, tr)"
      using that(4,5) by simp
  qed
  from a b c d e show ?thesis
    by blast
qed

theorem Reconcile_outcomes_witness:
  "fst (Reconcile (scenario (Inl (StatusError True False ''not found'')) (Inr ()) (Inr []) None)
          demoRequest) = Returned (\<lparr>Requeue = False\<rparr>, None) \<and>
   fst (Reconcile (scenario (Inl (OtherError ''get refused'')) (Inr ()) (Inr []) None)
          demoRequest) = Returned (\<lparr>Requeue = True\<rparr>, None) \<and>
   fst (Reconcile (scenario (Inr (demoPodSet 1)) (Inl (OtherError ''bad selector'')) (Inr []) None)
          demoRequest) = Returned (\<lparr>Requeue = True\<rparr>, None) \<and>
   fst (Reconcile (scenario (Inr (demoPodSet 1)) (Inr ()) (Inl (OtherError ''list refused'')) None)
          demoRequest) = Returned (\<lparr>Requeue = True\<rparr>, None) \<and>
   fst (Reconcile (scenario (Inr (demoPodSet 1)) (Inr ())
                     (Inr [demoPod ''b'' True, demoPod ''c'' True])
                     (Some (OtherError ''conflict'')))
          demoRequest) = Returned (\<lparr>Requeue = True\<rparr>, None) \<and>
   fst (Reconcile (scenario (Inr (demoPodSet 1)) (Inr ())
                     (Inr [demoPod ''b'' True, demoPod ''c'' True]) None)
          demoRequest) = Returned (\<lparr>Requeue = False\<rparr>, None) \<and>
   fst (manageReplicas (scenario (Inr (demoPodSet 1)) (Inr ())
                          (Inr [demoPod ''b'' True, demoPod ''c'' True]) None)
          [demoPod ''b'' True, demoPod ''c'' True] (demoPodSet 1)) =
     Returned (Some (FailedToDeletePod (OtherError ''delete refused'')))"
proof -
  let ?pods = "[demoPod ''b'' True, demoPod ''c'' True]"
  let ?failed = "Some (FailedToDeletePod (OtherError ''delete refused''))"
  let ?calls = "[CallLogInfo ''Too many replicas'' (''ns'', ''demo'') 1 ''deleting'' 1,
                 CallDelete ''ns'' ''b'']"
  let ?status = "\<lparr> Replicas = 2, ReadyReplicas = 2, AvailableReplicas = 2,
                     ObservedGeneration = 0 \<rparr>"
  have c1: "fst (Reconcile (scenario (Inl (StatusError True False ''not found'')) (Inr ())
                   (Inr []) None) demoRequest) = Returned (\<lparr>Requeue = False\<rparr>, None)"
    using Reconcile_outcomes
            [of "scenario (Inl (StatusError True False ''not found'')) (Inr ()) (Inr []) None"
                demoRequest]
    by (simp add: scenario_simps)
  have c2: "fst (Reconcile (scenario (Inl (OtherError ''get refused'')) (Inr ()) (Inr []) None)
                   demoRequest) = Returned (\<lparr>Requeue = True\<rparr>, None)"
    using Reconcile_outcomes
            [of "scenario (Inl (OtherError ''get refused'')) (Inr ()) (Inr []) None" demoRequest]
    by (simp add: scenario_simps)
  have c3: "fst (Reconcile (scenario (Inr (demoPodSet 1)) (Inl (OtherError ''bad selector''))
                   (Inr []) None) demoRequest) = Returned (\<lparr>Requeue = True\<rparr>, None)"
    using Reconcile_outcomes
            [of "scenario (Inr (demoPodSet 1)) (Inl (OtherError ''bad selector'')) (Inr []) None"
                demoRequest]
    by (simp add: scenario_simps)
  have c4: "fst (Reconcile (scenario (Inr (demoPodSet 1)) (Inr ())
                   (Inl (OtherError ''list refused'')) None) demoRequest) =
              Returned (\<lparr>Requeue = True\<rparr>, None)"
    using Reconcile_outcomes
            [of "scenario (Inr (demoPodSet 1)) (Inr ()) (Inl (OtherError ''list refused'')) None"
                demoRequest]
    by (simp add: scenario_simps)
  have unmarked: "DeletionTimestamp (demoPodSet 1) = None"
    by (simp add: demoPodSet_def)
  have run: "manageReplicas (scenario (Inr (demoPodSet 1)) (Inr ()) (Inr ?pods) commitErr)
               ?pods (demoPodSet 1) = (Returned ?failed, ?calls)" for commitErr
    by (simp add: scenario_def demoEnv_def demoPodSet_def demoPod_def manageReplicas_def
          getPodsToDelete_def goroutineOrder_def deleteGoroutine_def deletePod_def)
  have status: "calculateStatus (scenario (Inr (demoPodSet 1)) (Inr ()) (Inr ?pods) commitErr)
                  (demoPodSet 1) ?pods ?failed = ?status" for commitErr
    by (simp add: scenario_def demoEnv_def demoPodSet_def demoPod_def calculateStatus_fields
          enumerate_eq_zip)
  have commit: "fst (updatePodSetStatus
                       (scenario (Inr (demoPodSet 1)) (Inr ()) (Inr ?pods) commitErr)
                       (demoPodSet 1) ?status) =
                  (case commitErr of
                     Some err \<Rightarrow> Inl err
                   | None \<Rightarrow> Inr ((demoPodSet 1)\<lparr>Status := ?status\<lparr>ObservedGeneration := 1\<rparr>\<rparr>))"
    for commitErr
    by (simp add: scenario_simps demoPodSet_def updatePodSetStatus_def Let_def
          split: option.splits)
  have pass: "fst (Reconcile (scenario (Inr (demoPodSet 1)) (Inr ()) (Inr ?pods) commitErr)
                     demoRequest) =
                Returned (\<lparr>Requeue = (case commitErr of Some err \<Rightarrow> True | None \<Rightarrow> False)\<rparr>,
                          None)" for commitErr
  proof -
    let ?env = "scenario (Inr (demoPodSet 1)) (Inr ()) (Inr ?pods) commitErr"
    have "rGet ?env demoRequest = Inr (demoPodSet 1) \<and>
          parsePodSelector ?env (demoPodSet 1) = Inr () \<and>
          rList ?env (ReqNamespace demoRequest) () = Inr ?pods \<and>
          DeletionTimestamp (demoPodSet 1) = None \<and>
          manageReplicas ?env (FilterActivePods ?env ?pods) (demoPodSet 1) =
            (Returned ?failed, ?calls)"
      by (simp add: scenario_simps unmarked run)
    with Reconcile_outcomes [of ?env demoRequest]
    have "Reconcile ?env demoRequest =
            (Returned
               (\<lparr>Requeue =
                   (case fst (updatePodSetStatus ?env (demoPodSet 1)
                                (calculateStatus ?env (demoPodSet 1)
                                   (FilterActivePods ?env ?pods) ?failed)) of
                      Inl err \<Rightarrow> True
                    | Inr updated \<Rightarrow> False)\<rparr>,
                None),
             [CallLogV1Info ''reconciling pod set operator'', CallGet demoRequest,
              CallList (ReqNamespace demoRequest) ()] @ ?calls @
             snd (updatePodSetStatus ?env (demoPodSet 1)
                    (calculateStatus ?env (demoPodSet 1)
                       (FilterActivePods ?env ?pods) ?failed)))"
      by blast
    then show ?thesis
      by (simp add: scenario_simps status commit split: option.splits)
  qed
  from c1 c2 c3 c4 pass [of "Some (OtherError ''conflict'')"] pass [of None] run [of None]
  show ?thesis
    by simp
qed

end
